theory Spec2Isabelle
  imports Complex_Main "HOL-Library.Word"
begin

section \<open>The loudness-histogram producer of MasterMePlugin\<close>

text \<open>
  This theory embeds \<^verbatim>\<open>src/plugin/MasterMePlugin.cpp\<close>: the member variables of
  class \<^verbatim>\<open>MasterMePlugin\<close> become a record, every member function becomes a function
  from the old object to the new one, and the calls \<^verbatim>\<open>lufsInFifo.write(..)\<close> and
  \<^verbatim>\<open>lufsOutFifo.write(..)\<close> are returned as a list of effects.
\<close>

subsection \<open>Values of type \<^verbatim>\<open>float\<close> and \<^verbatim>\<open>uint\<close>\<close>

text \<open>
  A C++ \<^verbatim>\<open>float\<close> is a finite number, an infinity or a NaN. The program only compares
  floats, tests them with \<^verbatim>\<open>std::isfinite\<close> and converts one \<^verbatim>\<open>uint\<close> to \<^verbatim>\<open>float\<close>,
  so finite values are kept as the real number they denote.
\<close>

datatype float = Fin real | PInf | NInf | NaN

fun isfinite :: "float \<Rightarrow> bool" where
  "isfinite (Fin x) = True"
| "isfinite PInf = False"
| "isfinite NInf = False"
| "isfinite NaN = False"

text \<open>The operator \<^verbatim>\<open><\<close> on floats: every comparison with a NaN is false.\<close>

fun float_less :: "float \<Rightarrow> float \<Rightarrow> bool" where
  "float_less (Fin a) (Fin b) = (a < b)"
| "float_less (Fin a) PInf = True"
| "float_less NInf (Fin b) = True"
| "float_less NInf PInf = True"
| "float_less a b = False"

text \<open>\<^verbatim>\<open>std::max(a, b)\<close> is \<^verbatim>\<open>(a < b) ? b : a\<close>, on floats and on unsigned integers.\<close>

definition std_max :: "float \<Rightarrow> float \<Rightarrow> float" where
  "std_max a b = (if float_less a b then b else a)"

definition std_max_uint :: "32 word \<Rightarrow> 32 word \<Rightarrow> 32 word" where
  "std_max_uint a b = (if a < b then b else a)"

text \<open>
  The implicit conversion of a \<^verbatim>\<open>uint\<close> to \<^verbatim>\<open>float\<close> in a \<^verbatim>\<open>return\<close> statement. A
  \<^verbatim>\<open>float\<close> has a significand of 24 bits: a value below \<open>2 ^ 24\<close> is kept, a larger one
  loses its low bits (at most 8 of the 32) and is rounded to the nearest representable
  value, ties to the even significand.
\<close>

definition dropped_bits :: "nat \<Rightarrow> nat" where
  "dropped_bits n =
     (if n < 2 ^ 24 then 0 else if n < 2 ^ 25 then 1 else if n < 2 ^ 26 then 2
      else if n < 2 ^ 27 then 3 else if n < 2 ^ 28 then 4 else if n < 2 ^ 29 then 5
      else if n < 2 ^ 30 then 6 else if n < 2 ^ 31 then 7 else 8)"

definition round_to_float :: "nat \<Rightarrow> nat" where
  "round_to_float n =
     (let e = dropped_bits n;
          q = n div 2 ^ e;
          r = n mod 2 ^ e
      in (if 2 ^ e < 2 * r \<or> (2 * r = 2 ^ e \<and> odd q) then q + 1 else q) * 2 ^ e)"

definition float_of_uint :: "32 word \<Rightarrow> float" where
  "float_of_uint w = Fin (real (round_to_float (unat w)))"

subsection \<open>Constants declared outside the source file\<close>

text \<open>
  \<^verbatim>\<open>DistrhoPluginInfo.h\<close> and the generated \<^verbatim>\<open>Plugin.cpp\<close> declare the constants the
  class uses. They are parameters of the model.
\<close>

record constants =
  kParameterCount :: "32 word"
  kExtraParameterHistogramBufferSize :: "32 word"
  kMinimumHistogramBufferSize :: "32 word"

subsection \<open>The object\<close>

text \<open>
  The two rings \<^verbatim>\<open>lufsIn\<close> and \<^verbatim>\<open>lufsOut\<close> of the shared \<^verbatim>\<open>MasterMeHistogramFifos\<close>. A
  \<^verbatim>\<open>MasterMeFifoControl\<close> is bound to one of them by \<^verbatim>\<open>setFloatFifo\<close>, or to none by
  \<^verbatim>\<open>setFloatFifo(nullptr)\<close>.
\<close>

datatype ring = LufsIn | LufsOut

text \<open>
  One call of \<^verbatim>\<open>write\<close> on a fifo control: the ring the control is bound to at that moment
  and the sample.
\<close>

type_synonym fifo_write = "ring option \<times> float"

record MasterMePlugin =
  mode :: string
  bufferSizeForHistogram :: "32 word"
  numFramesSoFar :: "32 word"
  lufsInFifo :: "ring option"
  lufsOutFifo :: "ring option"
  histogramSharedData :: bool
  highestLufsInValue :: float
  highestLufsOutValue :: float
  histogramActive :: bool

text \<open>
  Modelled from the spec: \<^verbatim>\<open>utils/SharedMemory.hpp\<close> (the class \<^verbatim>\<open>SharedMemory\<close>) is not
  among the sources. Following the SharedRegion of the specification, the field
  \<^const>\<open>histogramSharedData\<close> says whether the region is attached; \<^verbatim>\<open>close()\<close> detaches;
  \<^verbatim>\<open>connect(name)\<close> attaches and returns the payload, or fails, returns null and leaves
  the region unattached; \<^verbatim>\<open>getDataPointer()\<close> is null exactly when the region is
  unattached. Whether a connect succeeds is decided by the operating system, so the
  outcome is an argument: \<open>None\<close> for a failure, \<open>Some c\<close> for a payload whose \<^verbatim>\<open>closed\<close>
  flag reads \<open>c\<close>.
\<close>

definition isCreatedOrConnected :: "MasterMePlugin \<Rightarrow> bool" where
  "isCreatedOrConnected s = histogramSharedData s"

definition shm_close :: "MasterMePlugin \<Rightarrow> MasterMePlugin" where
  "shm_close s = s\<lparr>histogramSharedData := False\<rparr>"

definition shm_connect :: "bool option \<Rightarrow> MasterMePlugin \<Rightarrow> MasterMePlugin" where
  "shm_connect outcome s = s\<lparr>histogramSharedData := (outcome \<noteq> None)\<rparr>"

definition getDataPointer :: "MasterMePlugin \<Rightarrow> bool" where
  "getDataPointer s = histogramSharedData s"

text \<open>
  The constructor: the member initialisers of the class, then the flush threshold from the
  host's buffer size. A default-constructed fifo control is bound to no ring.
\<close>

definition silence :: float where
  "silence = Fin (- 70)"

definition MasterMePlugin_new :: "constants \<Rightarrow> 32 word \<Rightarrow> MasterMePlugin" where
  "MasterMePlugin_new k getBufferSize =
     \<lparr>mode = [],
      bufferSizeForHistogram = std_max_uint (kMinimumHistogramBufferSize k) getBufferSize,
      numFramesSoFar = 0,
      lufsInFifo = None,
      lufsOutFifo = None,
      histogramSharedData = False,
      highestLufsInValue = silence,
      highestLufsOutValue = silence,
      histogramActive = False\<rparr>"

text \<open>
  \<^verbatim>\<open>getParameterValue\<close>: an index below \<^verbatim>\<open>kParameterCount\<close> is answered by the generated
  plugin (the argument \<open>faust\<close>), the others by the \<^verbatim>\<open>switch\<close>.
\<close>

definition getParameterValue ::
  "constants \<Rightarrow> (32 word \<Rightarrow> float) \<Rightarrow> MasterMePlugin \<Rightarrow> 32 word \<Rightarrow> float" where
  "getParameterValue k faust s index =
     (if index < kParameterCount k then faust index
      else if index - kParameterCount k = kExtraParameterHistogramBufferSize k
           then float_of_uint (bufferSizeForHistogram s)
           else Fin 0)"

text \<open>\<^verbatim>\<open>setState\<close>, with the outcome of \<^verbatim>\<open>histogramSharedData.connect(value)\<close>.\<close>

definition setState ::
  "bool option \<Rightarrow> string \<Rightarrow> string \<Rightarrow> MasterMePlugin \<Rightarrow> MasterMePlugin" where
  "setState outcome key val s =
     (if key = ''mode'' then s\<lparr>mode := val\<rparr>
      else if key = ''histogram'' then
        (let s1 = (if isCreatedOrConnected s
                   then shm_close (s\<lparr>lufsInFifo := None, lufsOutFifo := None\<rparr>)
                   else s);
             s2 = shm_connect outcome s1
         in if outcome = None then s2
            else s2\<lparr>lufsInFifo := Some LufsIn, lufsOutFifo := Some LufsOut,
                    histogramActive := True\<rparr>)
      else s)"

definition activate :: "MasterMePlugin \<Rightarrow> MasterMePlugin" where
  "activate s = s\<lparr>numFramesSoFar := 0\<rparr>"

definition bufferSizeChanged :: "constants \<Rightarrow> 32 word \<Rightarrow> MasterMePlugin \<Rightarrow> MasterMePlugin" where
  "bufferSizeChanged k newBufferSize s =
     s\<lparr>bufferSizeForHistogram := std_max_uint (kMinimumHistogramBufferSize k) newBufferSize\<rparr>"

subsection \<open>The processing callback\<close>

text \<open>
  The arguments \<^verbatim>\<open>inputs\<close> and \<^verbatim>\<open>outputs\<close> of \<^verbatim>\<open>run\<close> are two channels of samples each.
  Reading a sample beyond the end of a channel is as undefined as the branch that ends in
  \<^verbatim>\<open>__builtin_unreachable()\<close>, so both make the check fail.
\<close>

type_synonym channels = "float list \<times> float list"

definition finite_at :: "float list \<Rightarrow> 32 word \<Rightarrow> bool" where
  "finite_at xs i = (unat i < length xs \<and> isfinite (xs ! unat i))"

text \<open>
  The \<^verbatim>\<open>for\<close> loop at the head of \<^verbatim>\<open>run\<close>, from index \<open>i\<close> on: \<open>False\<close> when it reaches
  \<^verbatim>\<open>__builtin_unreachable()\<close>.
\<close>

function check_finite :: "32 word \<Rightarrow> 32 word \<Rightarrow> channels \<Rightarrow> channels \<Rightarrow> bool" where
  "check_finite i frames inputs outputs =
     (if i < frames then
        (if \<not> finite_at (fst inputs) i then False
         else if \<not> finite_at (snd inputs) i then False
         else if \<not> finite_at (fst outputs) i then False
         else if \<not> finite_at (snd outputs) i then False
         else check_finite (i + 1) frames inputs outputs)
      else True)"
  by pat_completeness auto
termination
proof (relation "measure (\<lambda>(i, frames, inputs, outputs). unat frames - unat i)")
  show "wf (measure (\<lambda>(i, frames, inputs, outputs). unat frames - unat i))"
    by simp
next
  fix i frames :: "32 word" and inputs outputs :: channels
  assume "i < frames"
  then have lt: "unat i < unat frames"
    by (simp add: word_less_nat_alt)
  have "unat frames < 2 ^ 32"
    using unsigned_less [of frames] by simp
  with lt have "unat i + 1 < 2 ^ 32"
    by simp
  then have "unat (i + 1) = unat i + 1"
    by (simp add: unat_word_ariths)
  with lt show "((i + 1, frames, inputs, outputs), (i, frames, inputs, outputs))
      \<in> measure (\<lambda>(i, frames, inputs, outputs). unat frames - unat i)"
    by simp
qed

declare check_finite.simps [simp del]

text \<open>
  The call \<^verbatim>\<open>dsp->compute\<close> of the generated plugin is not part of the source file; what
  the metering reads of it are the two loudness readings, which are arguments here. The
  \<^verbatim>\<open>ScopedDenormalDisable\<close> only sets the floating-point mode for that call.

  The rest of \<^verbatim>\<open>run\<close>, after \<^verbatim>\<open>dsp->compute\<close>: \<open>lufs_in\<close> and \<open>lufs_out\<close> are the readings
  \<^verbatim>\<open>FaustGeneratedPlugin::getParameterValue(kParameter_lufs_in)\<close> and
  \<^verbatim>\<open>(kParameter_lufs_out)\<close>, and \<open>data_closed\<close> is the value of \<^verbatim>\<open>data->closed\<close> in the shared
  payload. The result is the new object and the writes to the fifo controls, in order.
\<close>

definition reset_peaks :: "MasterMePlugin \<Rightarrow> MasterMePlugin" where
  "reset_peaks s = s\<lparr>highestLufsInValue := silence, highestLufsOutValue := silence\<rparr>"

definition meter ::
  "32 word \<Rightarrow> float \<Rightarrow> float \<Rightarrow> bool \<Rightarrow> MasterMePlugin
     \<Rightarrow> MasterMePlugin \<times> fifo_write list" where
  "meter frames lufs_in lufs_out data_closed s =
     (let s1 = s\<lparr>highestLufsInValue := std_max (highestLufsInValue s) lufs_in\<rparr>;
          s2 = s1\<lparr>highestLufsOutValue := std_max (highestLufsOutValue s1) lufs_out\<rparr>;
          s3 = s2\<lparr>numFramesSoFar := numFramesSoFar s2 + frames\<rparr>
      in if bufferSizeForHistogram s3 \<le> numFramesSoFar s3 then
           (let s4 = s3\<lparr>numFramesSoFar := numFramesSoFar s3 - bufferSizeForHistogram s3\<rparr>
            in if histogramActive s4 then
                 (if \<not> getDataPointer s4 then (s4, [])
                  else if data_closed then (reset_peaks (s4\<lparr>histogramActive := False\<rparr>), [])
                  else (reset_peaks s4,
                        [(lufsInFifo s4, highestLufsInValue s4),
                         (lufsOutFifo s4, highestLufsOutValue s4)]))
               else (reset_peaks s4, []))
         else (s3, []))"

text \<open>\<^verbatim>\<open>run\<close>: \<open>None\<close> when the callback reaches \<^verbatim>\<open>__builtin_unreachable()\<close>.\<close>

definition run ::
  "channels \<Rightarrow> channels \<Rightarrow> 32 word \<Rightarrow> float \<Rightarrow> float \<Rightarrow> bool \<Rightarrow> MasterMePlugin
     \<Rightarrow> (MasterMePlugin \<times> fifo_write list) option" where
  "run inputs outputs frames lufs_in lufs_out data_closed s =
     (if check_finite 0 frames inputs outputs
      then Some (meter frames lufs_in lufs_out data_closed s)
      else None)"

subsection \<open>The plugin, the shared payload and the calls of the host\<close>

text \<open>
  The producer next to what it shares with the consumer: the \<^verbatim>\<open>closed\<close> flag of the
  payload and the samples written so far. The host calls the member functions in some
  order; the consumer sets the flag.
\<close>

record world =
  plugin :: MasterMePlugin
  shm_closed :: bool
  written :: "fifo_write list"

datatype event =
    Run channels channels "32 word" float float
  | Activate
  | BufferSizeChanged "32 word"
  | SetState string string "bool option"
  | SignalClosed

fun step :: "constants \<Rightarrow> event \<Rightarrow> world \<Rightarrow> world option" where
  "step k (Run inputs outputs frames lufs_in lufs_out) w =
     (case run inputs outputs frames lufs_in lufs_out (shm_closed w) (plugin w) of
        None \<Rightarrow> None
      | Some (s, ws) \<Rightarrow> Some (w\<lparr>plugin := s, written := written w @ ws\<rparr>))"
| "step k Activate w = Some (w\<lparr>plugin := activate (plugin w)\<rparr>)"
| "step k (BufferSizeChanged n) w = Some (w\<lparr>plugin := bufferSizeChanged k n (plugin w)\<rparr>)"
| "step k (SetState key val outcome) w =
     Some (w\<lparr>plugin := setState outcome key val (plugin w),
             shm_closed := (case outcome of
                              Some c \<Rightarrow> if key = ''histogram'' then c else shm_closed w
                            | None \<Rightarrow> shm_closed w)\<rparr>)"
| "step k SignalClosed w = Some (w\<lparr>shm_closed := True\<rparr>)"

fun exec :: "constants \<Rightarrow> event list \<Rightarrow> world \<Rightarrow> world option" where
  "exec k [] w = Some w"
| "exec k (e # es) w = (case step k e w of None \<Rightarrow> None | Some w' \<Rightarrow> exec k es w')"

text \<open>A callback whose samples pass the check of \<^verbatim>\<open>run\<close>.\<close>

fun defined_event :: "event \<Rightarrow> bool" where
  "defined_event (Run inputs outputs frames lufs_in lufs_out) =
     check_finite 0 frames inputs outputs"
| "defined_event e = True"

text \<open>A successful connect through the state key \<^verbatim>\<open>histogram\<close>.\<close>

fun reconnects :: "event \<Rightarrow> bool" where
  "reconnects (SetState key val (Some c)) = (key = ''histogram'')"
| "reconnects e = False"



text \<open>
  The fifo controls are bound to the two rings exactly while the region is attached: true
  of a new object and kept by every member function.
\<close>

definition fifos_bound :: "MasterMePlugin \<Rightarrow> bool" where
  "fifos_bound s =
     (if histogramSharedData s
      then lufsInFifo s = Some LufsIn \<and> lufsOutFifo s = Some LufsOut
      else lufsInFifo s = None \<and> lufsOutFifo s = None)"

text \<open>Frame \<open>j\<close> of a callback: all four samples are there and finite.\<close>

definition sample_ok :: "channels \<Rightarrow> channels \<Rightarrow> nat \<Rightarrow> bool" where
  "sample_ok inputs outputs j =
     (j < length (fst inputs) \<and> isfinite (fst inputs ! j)
      \<and> j < length (snd inputs) \<and> isfinite (snd inputs ! j)
      \<and> j < length (fst outputs) \<and> isfinite (fst outputs ! j)
      \<and> j < length (snd outputs) \<and> isfinite (snd outputs ! j))"

subsection \<open>The maximum of two loudness values\<close>

text \<open>
  What it means for \<open>acc\<close> to be the maximum of an old peak \<open>p\<close> and a reading \<open>r\<close>,
  said without \<^verbatim>\<open>std::max\<close>: the larger of two finite numbers in the order of the reals;
  plus infinity when one of two numbers is plus infinity; the other number when one is
  minus infinity. Where one of the two is a NaN there is no maximum, and the accumulator
  keeps the old peak.
\<close>

definition maximum_of :: "float \<Rightarrow> float \<Rightarrow> float \<Rightarrow> bool" where
  "maximum_of p r acc =
     ((\<forall>a b. p = Fin a \<and> r = Fin b \<longrightarrow> acc = Fin (max a b))
      \<and> (p \<noteq> NaN \<and> r \<noteq> NaN \<and> (p = PInf \<or> r = PInf) \<longrightarrow> acc = PInf)
      \<and> (p = NInf \<and> r \<noteq> NaN \<longrightarrow> acc = r)
      \<and> (r = NInf \<and> p \<noteq> NaN \<longrightarrow> acc = p)
      \<and> (p = NaN \<or> r = NaN \<longrightarrow> acc = p))"

subsection \<open>Values for the examples\<close>

text \<open>
  The examples run the plugin with a minimum window of 4096 frames, the extra parameter
  right after 60 generated ones, and channels of digital silence.
\<close>

definition example_constants :: constants where
  "example_constants =
     \<lparr>kParameterCount = 60, kExtraParameterHistogramBufferSize = 0,
      kMinimumHistogramBufferSize = 4096\<rparr>"

definition example_faust :: "32 word \<Rightarrow> float" where
  "example_faust index = Fin 0"

definition silent :: "nat \<Rightarrow> channels" where
  "silent n = (replicate n (Fin 0), replicate n (Fin 0))"

text \<open>
  A new plugin in a host with buffers of 512 frames, the same plugin after a successful
  connect to a payload that is not closed, and a world around a plugin.
\<close>

definition example_new :: MasterMePlugin where
  "example_new = MasterMePlugin_new example_constants 512"

definition example_attached :: MasterMePlugin where
  "example_attached = setState (Some False) ''histogram'' ''demo'' example_new"

definition world_of :: "MasterMePlugin \<Rightarrow> bool \<Rightarrow> world" where
  "world_of s flag = \<lparr>plugin = s, shm_closed = flag, written = []\<rparr>"

section \<open>Properties\<close>

subsection \<open>Maxima\<close>

lemma std_max_uint_max: "std_max_uint a b = max a b"
  by (auto simp add: std_max_uint_def max_def)

lemma std_max_Fin: "std_max (Fin a) (Fin b) = Fin (max a b)"
  by (simp add: std_max_def max_def)

text \<open>\<^verbatim>\<open>std::max\<close> returns the maximum, and nothing else is one.\<close>

lemma std_max_maximum: "maximum_of p r (std_max p r)"
  by (cases p; cases r) (simp_all add: maximum_of_def std_max_def max_def)

lemma maximum_of_unique:
  assumes "maximum_of p r acc"
  shows "acc = std_max p r"
  using assms by (cases p; cases r) (simp_all add: maximum_of_def std_max_def max_def)

subsection \<open>The validation loop\<close>

lemma unat_succ_below:
  fixes i frames :: "32 word"
  assumes "i < frames"
  shows "unat (i + 1) = Suc (unat i)"
proof -
  from assms have lt: "unat i < unat frames"
    by (simp add: word_less_nat_alt)
  have "unat frames < 2 ^ 32"
    using unsigned_less [of frames] by simp
  with lt have "unat i + 1 < 2 ^ 32"
    by simp
  then show ?thesis
    by (simp add: unat_word_ariths)
qed

lemma check_finite_iff:
  "check_finite i frames inputs outputs
     \<longleftrightarrow> (\<forall>j. i \<le> j \<and> j < frames \<longrightarrow> sample_ok inputs outputs (unat j))"
proof (induction i frames inputs outputs rule: check_finite.induct)
  case (1 i frames inputs outputs)
  show ?case
  proof (cases "i < frames")
    case False
    then have "check_finite i frames inputs outputs"
      by (subst check_finite.simps) simp
    moreover have "\<not> (i \<le> j \<and> j < frames)" for j
      using False by auto
    ultimately show ?thesis
      by blast
  next
    case True
    note lt = this
    have succ: "unat (i + 1) = Suc (unat i)"
      using lt by (rule unat_succ_below)
    have split: "i \<le> j \<longleftrightarrow> j = i \<or> i + 1 \<le> j" for j
      unfolding word_le_nat_alt word_unat_eq_iff succ by arith
    show ?thesis
    proof (cases "sample_ok inputs outputs (unat i)")
      case False
      then have "\<not> check_finite i frames inputs outputs"
        using lt by (subst check_finite.simps) (auto simp: sample_ok_def finite_at_def)
      moreover have "i \<le> i \<and> i < frames"
        using lt by simp
      ultimately show ?thesis
        using False by blast
    next
      case True
      then have "check_finite i frames inputs outputs
          = check_finite (i + 1) frames inputs outputs"
        using lt by (subst check_finite.simps) (simp add: sample_ok_def finite_at_def)
      also have "\<dots> \<longleftrightarrow> (\<forall>j. i + 1 \<le> j \<and> j < frames \<longrightarrow> sample_ok inputs outputs (unat j))"
        using "1.IH" lt True by (simp add: sample_ok_def finite_at_def)
      also have "\<dots> \<longleftrightarrow> (\<forall>j. i \<le> j \<and> j < frames \<longrightarrow> sample_ok inputs outputs (unat j))"
        using True split by auto
      finally show ?thesis .
    qed
  qed
qed

lemma word_range_nat_range:
  fixes frames :: "32 word"
  shows "(\<forall>i. i < frames \<longrightarrow> P (unat i)) \<longleftrightarrow> (\<forall>j. j < unat frames \<longrightarrow> P j)"
proof
  assume words: "\<forall>i. i < frames \<longrightarrow> P (unat i)"
  show "\<forall>j. j < unat frames \<longrightarrow> P j"
  proof (intro allI impI)
    fix j
    assume j: "j < unat frames"
    have "unat frames < 2 ^ 32"
      using unsigned_less [of frames] by simp
    with j have roundtrip: "unat (of_nat j :: 32 word) = j"
      by (simp add: unat_of_nat)
    with j have "(of_nat j :: 32 word) < frames"
      by (simp add: word_less_nat_alt)
    with words have "P (unat (of_nat j :: 32 word))"
      by blast
    with roundtrip show "P j"
      by simp
  qed
next
  assume "\<forall>j. j < unat frames \<longrightarrow> P j"
  then show "\<forall>i. i < frames \<longrightarrow> P (unat i)"
    by (simp add: word_less_nat_alt)
qed

lemma check_finite_samples:
  "check_finite 0 frames inputs outputs
     \<longleftrightarrow> (\<forall>j. j < unat frames \<longrightarrow> sample_ok inputs outputs j)"
proof -
  have "check_finite 0 frames inputs outputs
      \<longleftrightarrow> (\<forall>i. i < frames \<longrightarrow> sample_ok inputs outputs (unat i))"
    by (simp add: check_finite_iff)
  then show ?thesis
    by (simp only: word_range_nat_range)
qed


lemma check_finite_silent:
  assumes "unat frames \<le> n"
  shows "check_finite 0 frames (silent n) (silent n)"
  unfolding check_finite_samples using assms
  by (simp add: sample_ok_def silent_def)

lemma run_checked:
  "check_finite 0 frames inputs outputs
   \<Longrightarrow> run inputs outputs frames lufs_in lufs_out c s = Some (meter frames lufs_in lufs_out c s)"
  by (simp add: run_def)

subsection \<open>One callback\<close>

lemma meter_below_threshold:
  assumes "\<not> bufferSizeForHistogram s \<le> numFramesSoFar s + frames"
  shows "meter frames lufs_in lufs_out c s =
     (s\<lparr>highestLufsInValue := std_max (highestLufsInValue s) lufs_in,
        highestLufsOutValue := std_max (highestLufsOutValue s) lufs_out,
        numFramesSoFar := numFramesSoFar s + frames\<rparr>, [])"
  using assms by (simp add: meter_def)

lemma meter_flush_open:
  assumes "bufferSizeForHistogram s \<le> numFramesSoFar s + frames"
    and "histogramActive s" and "histogramSharedData s" and "\<not> c"
  shows "meter frames lufs_in lufs_out c s =
     (s\<lparr>highestLufsInValue := silence, highestLufsOutValue := silence,
        numFramesSoFar := numFramesSoFar s + frames - bufferSizeForHistogram s\<rparr>,
      [(lufsInFifo s, std_max (highestLufsInValue s) lufs_in),
       (lufsOutFifo s, std_max (highestLufsOutValue s) lufs_out)])"
  using assms by (simp add: meter_def getDataPointer_def reset_peaks_def)

lemma meter_flush_closed:
  assumes "bufferSizeForHistogram s \<le> numFramesSoFar s + frames"
    and "histogramActive s" and "histogramSharedData s" and "c"
  shows "meter frames lufs_in lufs_out c s =
     (s\<lparr>highestLufsInValue := silence, highestLufsOutValue := silence,
        numFramesSoFar := numFramesSoFar s + frames - bufferSizeForHistogram s,
        histogramActive := False\<rparr>, [])"
  using assms by (simp add: meter_def getDataPointer_def reset_peaks_def)

lemma meter_flush_inactive:
  assumes "bufferSizeForHistogram s \<le> numFramesSoFar s + frames"
    and "\<not> histogramActive s"
  shows "meter frames lufs_in lufs_out c s =
     (s\<lparr>highestLufsInValue := silence, highestLufsOutValue := silence,
        numFramesSoFar := numFramesSoFar s + frames - bufferSizeForHistogram s\<rparr>, [])"
  using assms by (simp add: meter_def getDataPointer_def reset_peaks_def)

lemma meter_flush_unattached:
  assumes "bufferSizeForHistogram s \<le> numFramesSoFar s + frames"
    and "histogramActive s" and "\<not> histogramSharedData s"
  shows "meter frames lufs_in lufs_out c s =
     (s\<lparr>highestLufsInValue := std_max (highestLufsInValue s) lufs_in,
        highestLufsOutValue := std_max (highestLufsOutValue s) lufs_out,
        numFramesSoFar := numFramesSoFar s + frames - bufferSizeForHistogram s\<rparr>, [])"
  using assms by (simp add: meter_def getDataPointer_def reset_peaks_def)

lemma meter_threshold [simp]:
  "bufferSizeForHistogram (fst (meter frames lufs_in lufs_out c s)) = bufferSizeForHistogram s"
  by (simp add: meter_def getDataPointer_def reset_peaks_def Let_def)

lemma meter_attached [simp]:
  "histogramSharedData (fst (meter frames lufs_in lufs_out c s)) = histogramSharedData s"
  by (simp add: meter_def getDataPointer_def reset_peaks_def Let_def)

lemma meter_fifos [simp]:
  "lufsInFifo (fst (meter frames lufs_in lufs_out c s)) = lufsInFifo s"
  "lufsOutFifo (fst (meter frames lufs_in lufs_out c s)) = lufsOutFifo s"
  by (simp_all add: meter_def getDataPointer_def reset_peaks_def Let_def)


lemma meter_writes_cases:
  "snd (meter frames lufs_in lufs_out c s) = []
   \<or> (bufferSizeForHistogram s \<le> numFramesSoFar s + frames \<and> histogramActive s
      \<and> histogramSharedData s \<and> \<not> c
      \<and> snd (meter frames lufs_in lufs_out c s) =
          [(lufsInFifo s, std_max (highestLufsInValue s) lufs_in),
           (lufsOutFifo s, std_max (highestLufsOutValue s) lufs_out)])"
  by (simp add: meter_def getDataPointer_def reset_peaks_def Let_def)

lemma meter_counter:
  "numFramesSoFar (fst (meter frames lufs_in lufs_out c s)) =
     (if bufferSizeForHistogram s \<le> numFramesSoFar s + frames
      then numFramesSoFar s + frames - bufferSizeForHistogram s
      else numFramesSoFar s + frames)"
  by (simp add: meter_def getDataPointer_def reset_peaks_def Let_def)

subsection \<open>The examples\<close>

lemma example_new_fields:
  "example_new =
     \<lparr>mode = [], bufferSizeForHistogram = 4096, numFramesSoFar = 0, lufsInFifo = None,
      lufsOutFifo = None, histogramSharedData = False, highestLufsInValue = Fin (- 70),
      highestLufsOutValue = Fin (- 70), histogramActive = False\<rparr>"
  by (simp add: example_new_def MasterMePlugin_new_def example_constants_def std_max_uint_def
      silence_def)

lemma example_attached_fields:
  "example_attached =
     \<lparr>mode = [], bufferSizeForHistogram = 4096, numFramesSoFar = 0,
      lufsInFifo = Some LufsIn, lufsOutFifo = Some LufsOut, histogramSharedData = True,
      highestLufsInValue = Fin (- 70), highestLufsOutValue = Fin (- 70),
      histogramActive = True\<rparr>"
  by (simp add: example_attached_def example_new_fields setState_def isCreatedOrConnected_def
      shm_connect_def)

lemma silent_checked [simp]:
  "check_finite 0 4096 (silent 4096) (silent 4096)"
  "check_finite 0 2048 (silent 2048) (silent 2048)"
  "check_finite 0 512 (silent 512) (silent 512)"
  by (simp_all add: check_finite_silent)

subsection \<open>The flush threshold\<close>

text \<open>
  C3: for every value \<open>x\<close> passed to \<^verbatim>\<open>bufferSizeChanged\<close>, the flush threshold
  \<^verbatim>\<open>bufferSizeForHistogram\<close> becomes exactly the maximum of
  \<^verbatim>\<open>kMinimumHistogramBufferSize\<close> and \<open>x\<close>, also when \<open>x\<close> is below the minimum; the
  constructor applies the same formula to the host's initial buffer size. The maximum is
  that of the unsigned values.
\<close>

theorem bufferSizeChanged_threshold:
  "bufferSizeForHistogram (bufferSizeChanged k x s) = max (kMinimumHistogramBufferSize k) x
   \<and> unat (bufferSizeForHistogram (bufferSizeChanged k x s))
       = max (unat (kMinimumHistogramBufferSize k)) (unat x)
   \<and> bufferSizeForHistogram (MasterMePlugin_new k x) = max (kMinimumHistogramBufferSize k) x
   \<and> unat (bufferSizeForHistogram (MasterMePlugin_new k x))
       = max (unat (kMinimumHistogramBufferSize k)) (unat x)"
  by (simp add: bufferSizeChanged_def MasterMePlugin_new_def std_max_uint_max max_def
      word_le_nat_alt)

subsection \<open>Peaks, counter and flush\<close>

text \<open>
  C4: a callback whose samples pass the check replaces each peak by the maximum of the
  peak and the loudness reading of its side and adds \<open>frames\<close> to the frame counter (in
  32-bit unsigned arithmetic). Below the threshold that is all. When the counter reaches
  the threshold while the channel is active, the payload is attached and its \<^verbatim>\<open>closed\<close>
  flag is not set, exactly one sample is written to each ring, the accumulated maximum of
  its side, and both peaks are reset to the silence floor of -70. The maximum is that of
  \<^const>\<open>maximum_of\<close>: for finite values the larger of the two real numbers.
\<close>

theorem run_accumulates_and_flushes:
  assumes "check_finite 0 frames inputs outputs"
  shows "\<exists>s' ws accIn accOut.
       run inputs outputs frames lufs_in lufs_out c s = Some (s', ws)
     \<and> maximum_of (highestLufsInValue s) lufs_in accIn
     \<and> maximum_of (highestLufsOutValue s) lufs_out accOut
     \<and> (\<not> bufferSizeForHistogram s \<le> numFramesSoFar s + frames \<longrightarrow>
          highestLufsInValue s' = accIn
          \<and> highestLufsOutValue s' = accOut
          \<and> numFramesSoFar s' = numFramesSoFar s + frames
          \<and> ws = [])
     \<and> (bufferSizeForHistogram s \<le> numFramesSoFar s + frames
          \<and> histogramActive s \<and> histogramSharedData s \<and> fifos_bound s \<and> \<not> c \<longrightarrow>
          ws = [(Some LufsIn, accIn), (Some LufsOut, accOut)]
          \<and> highestLufsInValue s' = silence
          \<and> highestLufsOutValue s' = silence
          \<and> numFramesSoFar s' = numFramesSoFar s + frames - bufferSizeForHistogram s)"
proof -
  let ?m = "meter frames lufs_in lufs_out c s"
  let ?accIn = "std_max (highestLufsInValue s) lufs_in"
  let ?accOut = "std_max (highestLufsOutValue s) lufs_out"
  have "run inputs outputs frames lufs_in lufs_out c s = Some (fst ?m, snd ?m)"
    using assms by (simp add: run_checked)
  moreover have "maximum_of (highestLufsInValue s) lufs_in ?accIn"
    and "maximum_of (highestLufsOutValue s) lufs_out ?accOut"
    by (rule std_max_maximum)+
  moreover have "\<not> bufferSizeForHistogram s \<le> numFramesSoFar s + frames \<longrightarrow>
          highestLufsInValue (fst ?m) = ?accIn
          \<and> highestLufsOutValue (fst ?m) = ?accOut
          \<and> numFramesSoFar (fst ?m) = numFramesSoFar s + frames
          \<and> snd ?m = []"
    by (simp add: meter_below_threshold)
  moreover have "bufferSizeForHistogram s \<le> numFramesSoFar s + frames
          \<and> histogramActive s \<and> histogramSharedData s \<and> fifos_bound s \<and> \<not> c \<longrightarrow>
          snd ?m = [(Some LufsIn, ?accIn), (Some LufsOut, ?accOut)]
          \<and> highestLufsInValue (fst ?m) = silence
          \<and> highestLufsOutValue (fst ?m) = silence
          \<and> numFramesSoFar (fst ?m) = numFramesSoFar s + frames - bufferSizeForHistogram s"
    by (simp add: meter_flush_open fifos_bound_def)
  ultimately show ?thesis
    by blast
qed

text \<open>
  Two callbacks of a plugin whose input peak is -5 and whose output peak is -30, with the
  readings -20 and -18: the input side keeps its louder old peak, the output side takes
  the louder reading. The first callback flushes, the second stays below the threshold.
\<close>

theorem run_accumulates_and_flushes_witness:
  "check_finite 0 4096 (silent 4096) (silent 4096)
   \<and> (\<exists>s'. run (silent 4096) (silent 4096) 4096 (Fin (- 20)) (Fin (- 18)) False
              (example_attached\<lparr>highestLufsInValue := Fin (- 5),
                 highestLufsOutValue := Fin (- 30)\<rparr>)
            = Some (s', [(Some LufsIn, Fin (- 5)), (Some LufsOut, Fin (- 18))])
          \<and> highestLufsInValue s' = Fin (- 70) \<and> highestLufsOutValue s' = Fin (- 70)
          \<and> numFramesSoFar s' = 0)
   \<and> (\<exists>s'. run (silent 512) (silent 512) 512 (Fin (- 20)) (Fin (- 18)) False
              (example_attached\<lparr>highestLufsInValue := Fin (- 5),
                 highestLufsOutValue := Fin (- 30)\<rparr>) = Some (s', [])
          \<and> highestLufsInValue s' = Fin (- 5) \<and> highestLufsOutValue s' = Fin (- 18)
          \<and> numFramesSoFar s' = 512)"
proof -
  let ?s = "example_attached\<lparr>highestLufsInValue := Fin (- 5),
                 highestLufsOutValue := Fin (- 30)\<rparr>"
  have a: "check_finite 0 4096 (silent 4096) (silent 4096)"
    and b: "check_finite 0 512 (silent 512) (silent 512)"
    by simp_all
  have fields: "bufferSizeForHistogram ?s = 4096" "numFramesSoFar ?s = 0"
    "histogramActive ?s" "histogramSharedData ?s" "fifos_bound ?s"
    "highestLufsInValue ?s = Fin (- 5)" "highestLufsOutValue ?s = Fin (- 30)"
    by (simp_all add: example_attached_fields fifos_bound_def)
  have larger: "acc = Fin (- 5)" if "maximum_of (Fin (- 5)) (Fin (- 20)) acc" for acc
    using that by (simp add: maximum_of_def)
  have reading: "acc = Fin (- 18)" if "maximum_of (Fin (- 30)) (Fin (- 18)) acc" for acc
    using that by (simp add: maximum_of_def)
  have flush: "\<exists>s'. run (silent 4096) (silent 4096) 4096 (Fin (- 20)) (Fin (- 18)) False ?s
            = Some (s', [(Some LufsIn, Fin (- 5)), (Some LufsOut, Fin (- 18))])
          \<and> highestLufsInValue s' = Fin (- 70) \<and> highestLufsOutValue s' = Fin (- 70)
          \<and> numFramesSoFar s' = 0"
  proof -
    from run_accumulates_and_flushes [OF a, of "Fin (- 20)" "Fin (- 18)" False ?s]
    obtain s' ws accIn accOut
      where r: "run (silent 4096) (silent 4096) 4096 (Fin (- 20)) (Fin (- 18)) False ?s
          = Some (s', ws)"
        and mi: "maximum_of (highestLufsInValue ?s) (Fin (- 20)) accIn"
        and mo: "maximum_of (highestLufsOutValue ?s) (Fin (- 18)) accOut"
        and at_threshold: "bufferSizeForHistogram ?s \<le> numFramesSoFar ?s + 4096
          \<and> histogramActive ?s \<and> histogramSharedData ?s \<and> fifos_bound ?s \<and> \<not> False \<longrightarrow>
          ws = [(Some LufsIn, accIn), (Some LufsOut, accOut)]
          \<and> highestLufsInValue s' = silence
          \<and> highestLufsOutValue s' = silence
          \<and> numFramesSoFar s' = numFramesSoFar ?s + 4096 - bufferSizeForHistogram ?s"
      by blast
    from mi have i: "accIn = Fin (- 5)"
      by (simp only: fields larger)
    from mo have o: "accOut = Fin (- 18)"
      by (simp only: fields reading)
    have "bufferSizeForHistogram ?s \<le> numFramesSoFar ?s + 4096
          \<and> histogramActive ?s \<and> histogramSharedData ?s \<and> fifos_bound ?s \<and> \<not> False"
      by (simp only: fields) simp
    with at_threshold have "ws = [(Some LufsIn, accIn), (Some LufsOut, accOut)]"
      and "highestLufsInValue s' = silence" and "highestLufsOutValue s' = silence"
      and "numFramesSoFar s' = numFramesSoFar ?s + 4096 - bufferSizeForHistogram ?s"
      by blast+
    with r i o show ?thesis
      by (simp add: fields silence_def)
  qed
  have below: "\<exists>s'. run (silent 512) (silent 512) 512 (Fin (- 20)) (Fin (- 18)) False ?s
            = Some (s', [])
          \<and> highestLufsInValue s' = Fin (- 5) \<and> highestLufsOutValue s' = Fin (- 18)
          \<and> numFramesSoFar s' = 512"
  proof -
    from run_accumulates_and_flushes [OF b, of "Fin (- 20)" "Fin (- 18)" False ?s]
    obtain s' ws accIn accOut
      where r: "run (silent 512) (silent 512) 512 (Fin (- 20)) (Fin (- 18)) False ?s
          = Some (s', ws)"
        and mi: "maximum_of (highestLufsInValue ?s) (Fin (- 20)) accIn"
        and mo: "maximum_of (highestLufsOutValue ?s) (Fin (- 18)) accOut"
        and under: "\<not> bufferSizeForHistogram ?s \<le> numFramesSoFar ?s + 512 \<longrightarrow>
          highestLufsInValue s' = accIn
          \<and> highestLufsOutValue s' = accOut
          \<and> numFramesSoFar s' = numFramesSoFar ?s + 512
          \<and> ws = []"
      by blast
    from mi have i: "accIn = Fin (- 5)"
      by (simp only: fields larger)
    from mo have o: "accOut = Fin (- 18)"
      by (simp only: fields reading)
    have "\<not> bufferSizeForHistogram ?s \<le> numFramesSoFar ?s + 512"
      by (simp only: fields) simp
    with under have "highestLufsInValue s' = accIn" and "highestLufsOutValue s' = accOut"
      and "numFramesSoFar s' = numFramesSoFar ?s + 512" and "ws = []"
      by blast+
    with r i o show ?thesis
      by (simp add: fields)
  qed
  from a flush below show ?thesis
    by blast
qed

text \<open>
  C5: at a flush the frame counter is reduced by exactly the flush threshold and is not
  zeroed: the frames beyond the threshold are carried into the next window.
\<close>

theorem flush_carries_overshoot:
  assumes "check_finite 0 frames inputs outputs"
    and "bufferSizeForHistogram s \<le> numFramesSoFar s + frames"
  shows "\<exists>s' ws. run inputs outputs frames lufs_in lufs_out c s = Some (s', ws)
     \<and> numFramesSoFar s' = numFramesSoFar s + frames - bufferSizeForHistogram s
     \<and> unat (numFramesSoFar s') + unat (bufferSizeForHistogram s)
         = unat (numFramesSoFar s + frames)
     \<and> (unat (numFramesSoFar s) + unat frames < 2 ^ 32 \<longrightarrow>
          unat (numFramesSoFar s')
            = unat (numFramesSoFar s) + unat frames - unat (bufferSizeForHistogram s))"
proof -
  let ?m = "meter frames lufs_in lufs_out c s"
  let ?n = "numFramesSoFar s + frames - bufferSizeForHistogram s"
  have r: "run inputs outputs frames lufs_in lufs_out c s = Some (fst ?m, snd ?m)"
    using assms(1) by (simp add: run_checked)
  have n: "numFramesSoFar (fst ?m) = ?n"
    using assms(2) by (simp add: meter_counter)
  have sub: "unat ?n = unat (numFramesSoFar s + frames) - unat (bufferSizeForHistogram s)"
    using assms(2) by (rule unat_sub)
  have le: "unat (bufferSizeForHistogram s) \<le> unat (numFramesSoFar s + frames)"
    using assms(2) by (simp add: word_le_nat_alt)
  have exact: "unat (numFramesSoFar s) + unat frames < 2 ^ 32 \<longrightarrow>
      unat (numFramesSoFar s + frames) = unat (numFramesSoFar s) + unat frames"
    using unat_add_lem [of "numFramesSoFar s" frames] by simp
  from r n sub le exact show ?thesis
    by (intro exI [of _ "fst ?m"] exI [of _ "snd ?m"]) simp
qed

theorem flush_carries_overshoot_witness:
  "check_finite 0 512 (silent 512) (silent 512)
   \<and> bufferSizeForHistogram (example_attached\<lparr>numFramesSoFar := 4000\<rparr>)
       \<le> numFramesSoFar (example_attached\<lparr>numFramesSoFar := 4000\<rparr>) + 512
   \<and> (\<exists>s' ws. run (silent 512) (silent 512) 512 (Fin (- 20)) (Fin (- 18)) False
              (example_attached\<lparr>numFramesSoFar := 4000\<rparr>) = Some (s', ws)
          \<and> numFramesSoFar s' = 416)"
proof -
  have a: "check_finite 0 512 (silent 512) (silent 512)"
    by simp
  have b: "bufferSizeForHistogram (example_attached\<lparr>numFramesSoFar := 4000\<rparr>)
       \<le> numFramesSoFar (example_attached\<lparr>numFramesSoFar := 4000\<rparr>) + 512"
    by (simp add: example_attached_fields)
  show ?thesis
    using a b flush_carries_overshoot
      [OF a b, of "Fin (- 20)" "Fin (- 18)" False]
    by (auto simp add: example_attached_fields)
qed

text \<open>An activation and the constructor put the counter below a positive threshold.\<close>

lemma activate_counter_below:
  "0 < bufferSizeForHistogram s
   \<Longrightarrow> numFramesSoFar (activate s) < bufferSizeForHistogram (activate s)"
  by (simp add: activate_def)

lemma new_counter_below:
  "0 < kMinimumHistogramBufferSize k
   \<Longrightarrow> numFramesSoFar (MasterMePlugin_new k n) < bufferSizeForHistogram (MasterMePlugin_new k n)"
  by (auto simp add: MasterMePlugin_new_def std_max_uint_def)

text \<open>
  C10: a callback that processes at most \<^verbatim>\<open>bufferSizeForHistogram\<close> frames keeps
  \<^verbatim>\<open>numFramesSoFar\<close> below \<^verbatim>\<open>bufferSizeForHistogram\<close>, and it writes nothing or one pair of
  samples: at most one flush happens in a callback.
\<close>

theorem run_keeps_counter_below_threshold:
  assumes "check_finite 0 frames inputs outputs"
    and "numFramesSoFar s < bufferSizeForHistogram s"
    and "frames \<le> bufferSizeForHistogram s"
  shows "\<exists>s' ws. run inputs outputs frames lufs_in lufs_out c s = Some (s', ws)
     \<and> bufferSizeForHistogram s' = bufferSizeForHistogram s
     \<and> numFramesSoFar s' < bufferSizeForHistogram s'
     \<and> (ws = [] \<or> (\<exists>a b. ws = [(lufsInFifo s, a), (lufsOutFifo s, b)]))"
proof -
  let ?m = "meter frames lufs_in lufs_out c s"
  let ?B = "bufferSizeForHistogram s"
  let ?sum = "numFramesSoFar s + frames"
  have r: "run inputs outputs frames lufs_in lufs_out c s = Some (fst ?m, snd ?m)"
    using assms(1) by (simp add: run_checked)
  have below: "numFramesSoFar (fst ?m) < ?B"
  proof (cases "?B \<le> ?sum")
    case False
    then show ?thesis
      by (simp add: meter_counter)
  next
    case True
    have n: "unat (numFramesSoFar s) < unat ?B" and f: "unat frames \<le> unat ?B"
      using assms(2,3) by (simp_all add: word_less_nat_alt word_le_nat_alt)
    have B: "unat ?B < 2 ^ 32"
      using unsigned_less [of ?B] by simp
    have sum: "unat ?sum = (unat (numFramesSoFar s) + unat frames) mod 2 ^ 32"
      by (simp add: unat_word_ariths)
    have "unat ?sum \<le> unat (numFramesSoFar s) + unat frames"
      unfolding sum by (rule mod_less_eq_dividend)
    with n f have "unat ?sum - unat ?B < unat ?B"
      by arith
    moreover have "unat (?sum - ?B) = unat ?sum - unat ?B"
      using True by (rule unat_sub)
    ultimately have "?sum - ?B < ?B"
      by (simp add: word_less_nat_alt)
    with True show ?thesis
      by (simp add: meter_counter)
  qed
  have "snd ?m = [] \<or> (\<exists>a b. snd ?m = [(lufsInFifo s, a), (lufsOutFifo s, b)])"
    using meter_writes_cases [of frames lufs_in lufs_out c s] by blast
  with r below show ?thesis
    by (intro exI [of _ "fst ?m"] exI [of _ "snd ?m"]) simp
qed


theorem run_keeps_counter_below_threshold_witness:
  "check_finite 0 512 (silent 512) (silent 512)
   \<and> numFramesSoFar (example_attached\<lparr>numFramesSoFar := 4000\<rparr>)
       < bufferSizeForHistogram (example_attached\<lparr>numFramesSoFar := 4000\<rparr>)
   \<and> 512 \<le> bufferSizeForHistogram (example_attached\<lparr>numFramesSoFar := 4000\<rparr>)
   \<and> (\<exists>s' ws. run (silent 512) (silent 512) 512 (Fin (- 20)) (Fin (- 18)) False
              (example_attached\<lparr>numFramesSoFar := 4000\<rparr>) = Some (s', ws)
          \<and> numFramesSoFar s' < 4096 \<and> length ws \<le> 2)"
proof -
  have a: "check_finite 0 512 (silent 512) (silent 512)"
    by simp
  have b: "numFramesSoFar (example_attached\<lparr>numFramesSoFar := 4000\<rparr>)
       < bufferSizeForHistogram (example_attached\<lparr>numFramesSoFar := 4000\<rparr>)"
    by (simp add: example_attached_fields)
  have c: "512 \<le> bufferSizeForHistogram (example_attached\<lparr>numFramesSoFar := 4000\<rparr>)"
    by (simp add: example_attached_fields)
  show ?thesis
    using a b c run_keeps_counter_below_threshold
      [OF a b c, of "Fin (- 20)" "Fin (- 18)" False]
    by (auto simp add: example_attached_fields)
qed

subsection \<open>Sequences of calls\<close>

lemma setState_active:
  "histogramActive (setState outcome key val s) =
     (histogramActive s \<or> (key = ''histogram'' \<and> outcome \<noteq> None))"
  by (auto simp add: setState_def shm_connect_def shm_close_def isCreatedOrConnected_def Let_def)

lemma setState_attached:
  "histogramSharedData (setState outcome key val s) =
     (if key = ''histogram'' then outcome \<noteq> None else histogramSharedData s)"
  by (auto simp add: setState_def shm_connect_def shm_close_def isCreatedOrConnected_def Let_def)

lemma setState_fifos_bound:
  "fifos_bound s \<Longrightarrow> fifos_bound (setState outcome key val s)"
  by (auto simp add: setState_def shm_connect_def shm_close_def isCreatedOrConnected_def
      fifos_bound_def Let_def)

lemma setState_threshold [simp]:
  "bufferSizeForHistogram (setState outcome key val s) = bufferSizeForHistogram s"
  by (auto simp add: setState_def shm_connect_def shm_close_def isCreatedOrConnected_def Let_def)

lemma new_fifos_bound: "fifos_bound (MasterMePlugin_new k n)"
  by (simp add: fifos_bound_def MasterMePlugin_new_def)

lemma meter_fifos_bound:
  "fifos_bound s \<Longrightarrow> fifos_bound (fst (meter frames lufs_in lufs_out c s))"
  by (simp add: fifos_bound_def)

lemma step_Run:
  assumes "check_finite 0 frames inputs outputs"
  shows "step k (Run inputs outputs frames lufs_in lufs_out) w =
     Some (w\<lparr>plugin := fst (meter frames lufs_in lufs_out (shm_closed w) (plugin w)),
             written := written w
               @ snd (meter frames lufs_in lufs_out (shm_closed w) (plugin w))\<rparr>)"
  using assms by (simp add: run_checked split: prod.split)





text \<open>An unattached region stays unattached and silent until a connect succeeds.\<close>

lemma step_while_unattached:
  assumes "\<not> histogramSharedData (plugin w)" and "defined_event e" and "\<not> reconnects e"
  shows "\<exists>w'. step k e w = Some w' \<and> written w' = written w
     \<and> \<not> histogramSharedData (plugin w')"
proof (cases e)
  case (Run inputs outputs frames lufs_in lufs_out)
  let ?m = "meter frames lufs_in lufs_out (shm_closed w) (plugin w)"
  have "snd ?m = []"
    using meter_writes_cases [of frames lufs_in lufs_out "shm_closed w" "plugin w"] assms(1)
    by simp
  then show ?thesis
    using assms Run by (simp add: step_Run del: step.simps)
next
  case (SetState key val outcome)
  with assms show ?thesis
    by (cases outcome) (simp_all add: setState_attached)
qed (use assms in \<open>simp_all add: activate_def bufferSizeChanged_def\<close>)

lemma exec_while_unattached:
  assumes "\<not> histogramSharedData (plugin w)" and "list_all defined_event es"
    and "\<not> list_ex reconnects es"
  shows "\<exists>w'. exec k es w = Some w' \<and> written w' = written w
     \<and> \<not> histogramSharedData (plugin w')"
  using assms
proof (induction es arbitrary: w)
  case Nil
  then show ?case by simp
next
  case (Cons e es)
  from Cons.prems obtain w1 where s: "step k e w = Some w1"
    and w1: "written w1 = written w" "\<not> histogramSharedData (plugin w1)"
    using step_while_unattached [of w e k] by auto
  from Cons.IH [of w1] Cons.prems w1 obtain w' where "exec k es w1 = Some w'"
    and "written w' = written w1" and "\<not> histogramSharedData (plugin w')"
    by auto
  with s w1 show ?case
    by simp
qed

text \<open>A successful connect activates the channel and binds both fifo controls.\<close>

lemma setState_connected:
  "histogramActive (setState (Some c) ''histogram'' val s)
   \<and> histogramSharedData (setState (Some c) ''histogram'' val s)
   \<and> lufsInFifo (setState (Some c) ''histogram'' val s) = Some LufsIn
   \<and> lufsOutFifo (setState (Some c) ''histogram'' val s) = Some LufsOut"
  by (simp add: setState_def shm_connect_def shm_close_def isCreatedOrConnected_def Let_def)

text \<open>Every call keeps the fifo controls bound exactly while the region is attached.\<close>

lemma step_fifos_bound:
  assumes "fifos_bound (plugin w)" and "step k e w = Some w'"
  shows "fifos_bound (plugin w')"
proof (cases e)
  case (Run inputs outputs frames lufs_in lufs_out)
  with assms(2) have "plugin w' = fst (meter frames lufs_in lufs_out (shm_closed w) (plugin w))"
    by (auto simp add: run_def split: if_splits prod.splits)
  with assms(1) show ?thesis
    by (simp add: meter_fifos_bound)
next
  case (SetState key val outcome)
  with assms show ?thesis
    by (auto simp add: setState_fifos_bound)
qed (use assms in \<open>auto simp add: fifos_bound_def activate_def bufferSizeChanged_def\<close>)

lemma exec_fifos_bound:
  assumes "fifos_bound (plugin w)" and "exec k es w = Some w'"
  shows "fifos_bound (plugin w')"
  using assms
proof (induction es arbitrary: w)
  case Nil
  then show ?case by simp
next
  case (Cons e es)
  from Cons.prems(2) obtain w1 where s: "step k e w = Some w1" and x: "exec k es w1 = Some w'"
    by (auto split: option.splits)
  from Cons.prems(1) s have "fifos_bound (plugin w1)"
    by (rule step_fifos_bound)
  then show ?case
    using x by (rule Cons.IH)
qed

subsection \<open>The closed flag\<close>



text \<open>
  C7: when the connect of \<^verbatim>\<open>setState("histogram", ..)\<close> fails, the call returns with
  \<^verbatim>\<open>histogramActive\<close> as it was (false stays false), with both fifo controls bound to no
  ring and the region unattached; the callbacks and other calls that follow all return,
  and none of them writes a sample, as long as no later connect succeeds.
\<close>

theorem failed_connect_inert:
  assumes "fifos_bound (plugin w)" and "list_all defined_event es"
    and "\<not> list_ex reconnects es"
  shows "\<exists>w1 w'. step k (SetState ''histogram'' val None) w = Some w1
     \<and> histogramActive (plugin w1) = histogramActive (plugin w)
     \<and> lufsInFifo (plugin w1) = None \<and> lufsOutFifo (plugin w1) = None
     \<and> \<not> histogramSharedData (plugin w1)
     \<and> exec k es w1 = Some w' \<and> written w' = written w"
proof -
  let ?s = "setState None ''histogram'' val (plugin w)"
  let ?w1 = "w\<lparr>plugin := ?s\<rparr>"
  have s: "step k (SetState ''histogram'' val None) w = Some ?w1"
    by simp
  have act: "histogramActive ?s = histogramActive (plugin w)"
    by (simp add: setState_active)
  have det: "\<not> histogramSharedData ?s"
    by (simp add: setState_attached)
  have "fifos_bound ?s"
    using assms(1) by (rule setState_fifos_bound)
  with det have unbound: "lufsInFifo ?s = None \<and> lufsOutFifo ?s = None"
    by (simp add: fifos_bound_def)
  from det assms(2,3) obtain w' where "exec k es ?w1 = Some w'"
    and "written w' = written ?w1"
    using exec_while_unattached [of ?w1 es k] by auto
  with s act det unbound show ?thesis
    by (intro exI [of _ ?w1] exI [of _ w']) simp
qed

theorem failed_connect_inert_witness:
  "fifos_bound (plugin (world_of example_new False))
   \<and> (\<exists>w1 w'. step example_constants (SetState ''histogram'' ''demo'' None)
                  (world_of example_new False) = Some w1
        \<and> \<not> histogramActive (plugin w1)
        \<and> lufsInFifo (plugin w1) = None \<and> lufsOutFifo (plugin w1) = None
        \<and> exec example_constants
            [Run (silent 4096) (silent 4096) 4096 (Fin (- 20)) (Fin (- 18))] w1 = Some w'
        \<and> written w' = [])"
proof -
  let ?es = "[Run (silent 4096) (silent 4096) 4096 (Fin (- 20)) (Fin (- 18))]"
  have a: "fifos_bound (plugin (world_of example_new False))"
    by (simp add: world_of_def example_new_def new_fifos_bound)
  have b: "list_all defined_event ?es"
    by simp
  have c: "\<not> list_ex reconnects ?es"
    by simp
  have d: "\<not> histogramActive (plugin (world_of example_new False))"
    and e: "written (world_of example_new False) = []"
    by (simp_all add: world_of_def example_new_fields)
  from failed_connect_inert [OF a b c, of example_constants "''demo''"]
  obtain w1 w' where st: "step example_constants (SetState ''histogram'' ''demo'' None)
                  (world_of example_new False) = Some w1"
    and act: "histogramActive (plugin w1)
        = histogramActive (plugin (world_of example_new False))"
    and unb: "lufsInFifo (plugin w1) = None" "lufsOutFifo (plugin w1) = None"
    and ex: "exec example_constants ?es w1 = Some w'"
    and wr: "written w' = written (world_of example_new False)"
    by blast
  from act d have na: "\<not> histogramActive (plugin w1)"
    by simp
  from wr e have unwritten: "written w' = []"
    by simp
  from a st na unb ex unwritten show ?thesis
    by blast
qed

subsection \<open>Suppressed flushes\<close>

text \<open>
  C2, as the code has it: a flush is suppressed when the counter reaches the threshold
  while the channel is inactive, or while it is active with the payload attached and
  marked closed. Such a callback writes to neither ring and leaves the channel inactive,
  and it resets both peaks to the silence floor of -70: the assignment that resets them
  follows the test of \<^verbatim>\<open>histogramActive\<close> and is reached on both of these paths. (A
  flush of an active channel whose region is unattached returns before the assignment;
  it is not a suppressed flush in this sense and the statement does not cover it.)
\<close>

theorem suppressed_flush_resets_peaks:
  assumes "check_finite 0 frames inputs outputs"
    and "bufferSizeForHistogram s \<le> numFramesSoFar s + frames"
    and "histogramActive s \<longrightarrow> histogramSharedData s \<and> c"
  shows "\<exists>s'. run inputs outputs frames lufs_in lufs_out c s = Some (s', [])
     \<and> highestLufsInValue s' = silence \<and> highestLufsOutValue s' = silence
     \<and> \<not> histogramActive s'"
proof (cases "histogramActive s")
  case True
  with assms(3) have "histogramSharedData s" and c
    by simp_all
  with assms(1,2) True show ?thesis
    by (simp add: run_checked meter_flush_closed)
next
  case False
  with assms(1,2) show ?thesis
    by (simp add: run_checked meter_flush_inactive)
qed

theorem suppressed_flush_resets_peaks_witness:
  "\<exists>s'. run (silent 2048) (silent 2048) 2048 (Fin (- 10)) (Fin (- 12)) True
       (example_attached\<lparr>numFramesSoFar := 2048, highestLufsInValue := Fin (- 5),
          highestLufsOutValue := Fin (- 3)\<rparr>) = Some (s', [])
     \<and> highestLufsInValue s' = Fin (- 70) \<and> highestLufsOutValue s' = Fin (- 70)
     \<and> \<not> histogramActive s'"
proof -
  let ?s = "example_attached\<lparr>numFramesSoFar := 2048, highestLufsInValue := Fin (- 5),
          highestLufsOutValue := Fin (- 3)\<rparr>"
  have a: "check_finite 0 2048 (silent 2048) (silent 2048)"
    by simp
  have b: "bufferSizeForHistogram ?s \<le> numFramesSoFar ?s + 2048"
    by (simp add: example_attached_fields)
  have c: "histogramActive ?s \<longrightarrow> histogramSharedData ?s \<and> True"
    by (simp add: example_attached_fields)
  from suppressed_flush_resets_peaks [OF a b c, of "Fin (- 10)" "Fin (- 12)"]
  show ?thesis
    by (simp add: silence_def)
qed

text \<open>
  The claim that the peaks keep accumulating over a suppressed flush fails. The channel
  is attached, a first callback of 2048 frames raises the input peak to -5, the consumer
  sets the flag, and a second callback of 2048 frames with the reading -10 reaches the
  threshold of 4096: the input peak is then -70 and not the maximum -5 of the old peak and
  the reading.
\<close>

theorem suppressed_flush_counterexample:
  "map_option (highestLufsInValue \<circ> plugin)
     (exec example_constants
        [Run (silent 2048) (silent 2048) 2048 (Fin (- 5)) (Fin (- 3)), SignalClosed]
        (world_of example_attached False)) = Some (Fin (- 5))
   \<and> map_option (highestLufsInValue \<circ> plugin)
     (exec example_constants
        [Run (silent 2048) (silent 2048) 2048 (Fin (- 5)) (Fin (- 3)), SignalClosed,
         Run (silent 2048) (silent 2048) 2048 (Fin (- 10)) (Fin (- 12))]
        (world_of example_attached False)) = Some (Fin (- 70))
   \<and> std_max (Fin (- 5)) (Fin (- 10)) = Fin (- 5)"
  by (simp add: world_of_def run_def meter_def example_attached_fields std_max_def
      getDataPointer_def reset_peaks_def silence_def)

subsection \<open>Activation\<close>

text \<open>
  C6, as the code has it: \<^verbatim>\<open>activate\<close> zeroes the frame counter and changes nothing
  else; both peak accumulators keep their values.
\<close>

theorem activate_zeroes_counter_only:
  "numFramesSoFar (activate s) = 0
   \<and> highestLufsInValue (activate s) = highestLufsInValue s
   \<and> highestLufsOutValue (activate s) = highestLufsOutValue s
   \<and> activate s = s\<lparr>numFramesSoFar := 0\<rparr>"
  by (simp add: activate_def)

text \<open>
  The claim that an activation resets the peaks to the silence floor fails: after a
  callback of 2048 frames with the readings -5 and -3 and an activation, the counter is 0
  and the peaks are still -5 and -3, not -70.
\<close>

theorem activate_resets_peaks_counterexample:
  "map_option (highestLufsInValue \<circ> plugin)
     (exec example_constants
        [Run (silent 2048) (silent 2048) 2048 (Fin (- 5)) (Fin (- 3)), Activate]
        (world_of example_attached False)) = Some (Fin (- 5))
   \<and> map_option (highestLufsOutValue \<circ> plugin)
     (exec example_constants
        [Run (silent 2048) (silent 2048) 2048 (Fin (- 5)) (Fin (- 3)), Activate]
        (world_of example_attached False)) = Some (Fin (- 3))
   \<and> map_option (numFramesSoFar \<circ> plugin)
     (exec example_constants
        [Run (silent 2048) (silent 2048) 2048 (Fin (- 5)) (Fin (- 3)), Activate]
        (world_of example_attached False)) = Some 0
   \<and> silence = Fin (- 70)"
  by (simp add: world_of_def run_def meter_def example_attached_fields std_max_def
      activate_def silence_def)

subsection \<open>The output parameter\<close>

lemma round_to_float_exact:
  assumes "n \<le> 2 ^ 24"
  shows "round_to_float n = n"
proof (cases "n < 2 ^ 24")
  case True
  then show ?thesis
    by (simp add: round_to_float_def dropped_bits_def)
next
  case False
  with assms have "n = 2 ^ 24"
    by simp
  then show ?thesis
    by (simp add: round_to_float_def dropped_bits_def)
qed

text \<open>
  C8, as the code has it: reading the parameter of index
  \<^verbatim>\<open>kParameterCount + kExtraParameterHistogramBufferSize\<close> returns the flush threshold
  \<^verbatim>\<open>bufferSizeForHistogram\<close> converted to \<^verbatim>\<open>float\<close>, which is the threshold itself
  whenever that is at most \<open>2 ^ 24\<close> frames.
\<close>

theorem histogram_buffer_size_parameter:
  assumes "kParameterCount k \<le> index"
    and "index - kParameterCount k = kExtraParameterHistogramBufferSize k"
  shows "getParameterValue k faust s index = float_of_uint (bufferSizeForHistogram s)
     \<and> (unat (bufferSizeForHistogram s) \<le> 2 ^ 24 \<longrightarrow>
          getParameterValue k faust s index = Fin (real (unat (bufferSizeForHistogram s))))"
proof -
  from assms(1) have "\<not> index < kParameterCount k"
    by (simp add: not_less)
  with assms(2) show ?thesis
    by (simp add: getParameterValue_def float_of_uint_def round_to_float_exact)
qed

theorem histogram_buffer_size_parameter_witness:
  "kParameterCount example_constants \<le> 60
   \<and> 60 - kParameterCount example_constants
       = kExtraParameterHistogramBufferSize example_constants
   \<and> unat (bufferSizeForHistogram (bufferSizeChanged example_constants 8192 example_new))
       = 8192
   \<and> getParameterValue example_constants example_faust
        (bufferSizeChanged example_constants 8192 example_new) 60 = Fin 8192"
proof -
  have a: "kParameterCount example_constants \<le> 60"
    and b: "60 - kParameterCount example_constants
       = kExtraParameterHistogramBufferSize example_constants"
    by (simp_all add: example_constants_def)
  have c: "bufferSizeForHistogram (bufferSizeChanged example_constants 8192 example_new)
      = 8192"
    by (simp add: bufferSizeChanged_def example_constants_def std_max_uint_def)
  from a b c histogram_buffer_size_parameter [OF a b, of example_faust
      "bufferSizeChanged example_constants 8192 example_new"]
  show ?thesis
    by (simp add: float_of_uint_def round_to_float_def dropped_bits_def)
qed

text \<open>
  The claim that the value read is always the threshold fails for a threshold that a
  \<^verbatim>\<open>float\<close> cannot hold: after \<^verbatim>\<open>bufferSizeChanged(16777217)\<close> the threshold is 16777217
  and the parameter reads 16777216.
\<close>

theorem histogram_buffer_size_counterexample:
  "unat (bufferSizeForHistogram (bufferSizeChanged example_constants 16777217 example_new))
     = 16777217
   \<and> getParameterValue example_constants example_faust
        (bufferSizeChanged example_constants 16777217 example_new) 60 = Fin 16777216"
  by (simp add: bufferSizeChanged_def example_constants_def std_max_uint_def
      getParameterValue_def float_of_uint_def round_to_float_def dropped_bits_def)

subsection \<open>Non-finite samples\<close>

text \<open>
  C9: \<^verbatim>\<open>run\<close> reaches \<^verbatim>\<open>__builtin_unreachable()\<close> exactly when one of the four samples
  of some frame below \<open>frames\<close> is missing or not finite. When every sample of every
  frame is finite the branch is not taken and the callback returns the result of the
  metering.
\<close>

theorem run_defined_iff_finite:
  "run inputs outputs frames lufs_in lufs_out c s =
     (if \<forall>j<unat frames. sample_ok inputs outputs j
      then Some (meter frames lufs_in lufs_out c s) else None)"
  by (simp add: run_def check_finite_samples)

theorem run_defined_iff_finite_witness:
  "run (silent 4096) (silent 4096) 4096 (Fin (- 20)) (Fin (- 18)) False example_attached
     = Some (meter 4096 (Fin (- 20)) (Fin (- 18)) False example_attached)
   \<and> run ([Fin 0, NaN], [Fin 0, Fin 0]) ([Fin 0, Fin 0], [Fin 0, Fin 0]) 2
        (Fin (- 20)) (Fin (- 18)) False example_attached = None
   \<and> run ([Fin 0, Fin 0], [Fin 0, Fin 0]) ([Fin 0, Fin 0], [Fin 0, PInf]) 2
        (Fin (- 20)) (Fin (- 18)) False example_attached = None"
proof -
  have a: "\<forall>j<unat (4096 :: 32 word). sample_ok (silent 4096) (silent 4096) j"
    by (simp add: sample_ok_def silent_def)
  have b: "\<not> (\<forall>j<unat (2 :: 32 word).
      sample_ok ([Fin 0, NaN], [Fin 0, Fin 0]) ([Fin 0, Fin 0], [Fin 0, Fin 0]) j)"
  proof
    assume "\<forall>j<unat (2 :: 32 word).
      sample_ok ([Fin 0, NaN], [Fin 0, Fin 0]) ([Fin 0, Fin 0], [Fin 0, Fin 0]) j"
    then have "sample_ok ([Fin 0, NaN], [Fin 0, Fin 0]) ([Fin 0, Fin 0], [Fin 0, Fin 0]) 1"
      by simp
    then show False
      by (simp add: sample_ok_def)
  qed
  have c: "\<not> (\<forall>j<unat (2 :: 32 word).
      sample_ok ([Fin 0, Fin 0], [Fin 0, Fin 0]) ([Fin 0, Fin 0], [Fin 0, PInf]) j)"
  proof
    assume "\<forall>j<unat (2 :: 32 word).
      sample_ok ([Fin 0, Fin 0], [Fin 0, Fin 0]) ([Fin 0, Fin 0], [Fin 0, PInf]) j"
    then have "sample_ok ([Fin 0, Fin 0], [Fin 0, Fin 0]) ([Fin 0, Fin 0], [Fin 0, PInf]) 1"
      by simp
    then show False
      by (simp add: sample_ok_def)
  qed
  have "run (silent 4096) (silent 4096) 4096 (Fin (- 20)) (Fin (- 18)) False example_attached
     = Some (meter 4096 (Fin (- 20)) (Fin (- 18)) False example_attached)"
    by (subst run_defined_iff_finite) (rule if_P [OF a])
  moreover
  have "run ([Fin 0, NaN], [Fin 0, Fin 0]) ([Fin 0, Fin 0], [Fin 0, Fin 0]) 2
        (Fin (- 20)) (Fin (- 18)) False example_attached = None"
    by (subst run_defined_iff_finite) (rule if_not_P [OF b])
  moreover
  have "run ([Fin 0, Fin 0], [Fin 0, Fin 0]) ([Fin 0, Fin 0], [Fin 0, PInf]) 2
        (Fin (- 20)) (Fin (- 18)) False example_attached = None"
    by (subst run_defined_iff_finite) (rule if_not_P [OF c])
  ultimately show ?thesis
    by blast
qed

end
